theory Spec2Isabelle
  imports Main
begin

section \<open>The customer service: data model\<close>

text \<open>
  The in-memory customer service keeps a Go map from customer identifiers to customer
  records. A Go string is modelled as a \<^typ>\<open>string\<close>, a slice by the list of its
  elements, the map by a partial function, and a Go \<^verbatim>\<open>error\<close> result by an
  \<^typ>\<open>'a option\<close> whose \<^const>\<open>None\<close> is \<^verbatim>\<open>nil\<close>. The reader/writer lock
  is not modelled: every operation below is one critical section, executed atomically.
  Slices are taken by value, as they arrive from the JSON decoder, each payload with a
  backing array of its own; the only in-place write of the service is the
  \<^verbatim>\<open>append\<close> of \<^verbatim>\<open>PostAddress\<close>, which touches address lists only.

  The service modelled is the one whose \<^verbatim>\<open>Customer\<close> has the fields
  \<^verbatim>\<open>Email\<close> and \<^verbatim>\<open>Phone\<close> and whose \<^verbatim>\<open>PostCustomer\<close> checks the required
  fields; the endpoints and the HTTP transport are those of the package.
\<close>

record Address =
  ID :: string
  Location :: string

record Customer =
  ID :: string
  Name :: string
  Email :: string
  Phone :: string
  Addresses :: "Address list"

text \<open>The sentinel errors of the package, and any other error value (a JSON decoding
  failure, for instance) with its message.\<close>

datatype err =
    ErrInconsistentIDs
  | ErrAlreadyExists
  | ErrNotFound
  | ErrMissingRequiredInputs
  | ErrBadRouting
  | OtherError string

fun Error :: "err \<Rightarrow> string" where
  "Error ErrInconsistentIDs = ''inconsistent IDs''"
| "Error ErrAlreadyExists = ''already exists''"
| "Error ErrNotFound = ''not found''"
| "Error ErrMissingRequiredInputs =
     ''Missing required fields. Name and Email are required to create a Customer''"
| "Error ErrBadRouting = ''inconsistent mapping between route and handler (programmer error)''"
| "Error (OtherError msg) = msg"

record inmemService =
  customers :: "string \<rightharpoonup> Customer"

definition NewInmemService :: inmemService where
  "NewInmemService = \<lparr>customers = Map.empty\<rparr>"

text \<open>The zero values \<^verbatim>\<open>Customer{}\<close> and \<^verbatim>\<open>Address{}\<close> returned beside an error.\<close>

definition zeroCustomer :: Customer where
  "zeroCustomer = \<lparr>Customer.ID = '''', Name = '''', Email = '''', Phone = '''', Addresses = []\<rparr>"

definition zeroAddress :: Address where
  "zeroAddress = \<lparr>Address.ID = '''', Location = ''''\<rparr>"

section \<open>The nine service operations\<close>

text \<open>Every operation takes the service state and returns its Go results together with
  the state it leaves behind.\<close>

definition PostCustomer :: "inmemService \<Rightarrow> Customer \<Rightarrow> err option \<times> inmemService" where
  "PostCustomer s p =
     (if Name p = '''' \<or> Email p = '''' then (Some ErrMissingRequiredInputs, s)
      else case customers s (Customer.ID p) of
             Some _ \<Rightarrow> (Some ErrAlreadyExists, s)
           | None \<Rightarrow> (None, s\<lparr>customers := (customers s)(Customer.ID p \<mapsto> p)\<rparr>))"

definition GetCustomer :: "inmemService \<Rightarrow> string \<Rightarrow> (Customer \<times> err option) \<times> inmemService" where
  "GetCustomer s id' =
     (case customers s id' of
        None \<Rightarrow> ((zeroCustomer, Some ErrNotFound), s)
      | Some p \<Rightarrow> ((p, None), s))"

definition PutCustomer :: "inmemService \<Rightarrow> string \<Rightarrow> Customer \<Rightarrow> err option \<times> inmemService" where
  "PutCustomer s id' p =
     (if id' \<noteq> Customer.ID p then (Some ErrInconsistentIDs, s)
      else (None, s\<lparr>customers := (customers s)(id' \<mapsto> p)\<rparr>))"

definition PatchCustomer :: "inmemService \<Rightarrow> string \<Rightarrow> Customer \<Rightarrow> err option \<times> inmemService" where
  "PatchCustomer s id' p =
     (if Customer.ID p \<noteq> '''' \<and> id' \<noteq> Customer.ID p then (Some ErrInconsistentIDs, s)
      else case customers s id' of
             None \<Rightarrow> (Some ErrNotFound, s)
           | Some existing \<Rightarrow>
               let existing1 = (if Name p \<noteq> '''' then existing\<lparr>Name := Name p\<rparr> else existing);
                   existing2 = (if length (Addresses p) > 0
                                then existing1\<lparr>Addresses := Addresses p\<rparr> else existing1)
               in (None, s\<lparr>customers := (customers s)(id' \<mapsto> existing2)\<rparr>))"

definition DeleteCustomer :: "inmemService \<Rightarrow> string \<Rightarrow> err option \<times> inmemService" where
  "DeleteCustomer s id' =
     (case customers s id' of
        None \<Rightarrow> (Some ErrNotFound, s)
      | Some _ \<Rightarrow> (None, s\<lparr>customers := (customers s)(id' := None)\<rparr>))"

definition GetAddresses :: "inmemService \<Rightarrow> string \<Rightarrow> (Address list \<times> err option) \<times> inmemService" where
  "GetAddresses s customerID =
     (case customers s customerID of
        None \<Rightarrow> (([], Some ErrNotFound), s)
      | Some p \<Rightarrow> ((Addresses p, None), s))"

definition GetAddress :: "inmemService \<Rightarrow> string \<Rightarrow> string \<Rightarrow> (Address \<times> err option) \<times> inmemService" where
  "GetAddress s customerID addressID =
     (case customers s customerID of
        None \<Rightarrow> ((zeroAddress, Some ErrNotFound), s)
      | Some p \<Rightarrow>
          (case find (\<lambda>address. Address.ID address = addressID) (Addresses p) of
             Some address \<Rightarrow> ((address, None), s)
           | None \<Rightarrow> ((zeroAddress, Some ErrNotFound), s)))"

definition PostAddress :: "inmemService \<Rightarrow> string \<Rightarrow> Address \<Rightarrow> err option \<times> inmemService" where
  "PostAddress s customerID a =
     (case customers s customerID of
        None \<Rightarrow> (Some ErrNotFound, s)
      | Some p \<Rightarrow>
          if list_ex (\<lambda>address. Address.ID address = Address.ID a) (Addresses p)
          then (Some ErrAlreadyExists, s)
          else (None, s\<lparr>customers :=
                  (customers s)(customerID \<mapsto> p\<lparr>Addresses := Addresses p @ [a]\<rparr>)\<rparr>))"

definition DeleteAddress :: "inmemService \<Rightarrow> string \<Rightarrow> string \<Rightarrow> err option \<times> inmemService" where
  "DeleteAddress s customerID addressID =
     (case customers s customerID of
        None \<Rightarrow> (Some ErrNotFound, s)
      | Some p \<Rightarrow>
          let newAddresses = filter (\<lambda>address. Address.ID address \<noteq> addressID) (Addresses p)
          in if length newAddresses = length (Addresses p) then (Some ErrNotFound, s)
             else (None, s\<lparr>customers :=
                     (customers s)(customerID \<mapsto> p\<lparr>Addresses := newAddresses\<rparr>)\<rparr>))"

section \<open>Endpoints\<close>

text \<open>The request and response values that travel as \<^verbatim>\<open>interface{}\<close> through the
  endpoint layer, one constructor per Go struct type.\<close>

datatype request =
    postCustomerRequest Customer
  | getCustomerRequest string
  | putCustomerRequest string Customer
  | patchCustomerRequest string Customer
  | deleteCustomerRequest string
  | getAddressesRequest string
  | getAddressRequest string string
  | postAddressRequest string Address
  | deleteAddressRequest string string

datatype response =
    postCustomerResponse "err option"
  | getCustomerResponse Customer "err option"
  | putCustomerResponse "err option"
  | patchCustomerResponse "err option"
  | deleteCustomerResponse "err option"
  | getAddressesResponse "Address list" "err option"
  | getAddressResponse Address "err option"
  | postAddressResponse "err option"
  | deleteAddressResponse "err option"

text \<open>The \<^verbatim>\<open>error()\<close> method of each response type (the \<^verbatim>\<open>errorer\<close> interface).\<close>

fun error :: "response \<Rightarrow> err option" where
  "error (postCustomerResponse Err) = Err"
| "error (getCustomerResponse c Err) = Err"
| "error (putCustomerResponse Err) = None"
| "error (patchCustomerResponse Err) = Err"
| "error (deleteCustomerResponse Err) = Err"
| "error (getAddressesResponse as Err) = Err"
| "error (getAddressResponse a Err) = Err"
| "error (postAddressResponse Err) = Err"
| "error (deleteAddressResponse Err) = Err"

text \<open>A server endpoint asserts the type of its request (a failed assertion panics:
  \<^const>\<open>None\<close>), calls the service and wraps the results; its own Go error is always
  \<^verbatim>\<open>nil\<close>.\<close>

fun MakePostCustomerEndpoint :: "inmemService \<Rightarrow> request \<Rightarrow> (response \<times> inmemService) option" where
  "MakePostCustomerEndpoint s (postCustomerRequest c) =
     (case PostCustomer s c of (e, s') \<Rightarrow> Some (postCustomerResponse e, s'))"
| "MakePostCustomerEndpoint s _ = None"

fun MakeGetCustomerEndpoint :: "inmemService \<Rightarrow> request \<Rightarrow> (response \<times> inmemService) option" where
  "MakeGetCustomerEndpoint s (getCustomerRequest id') =
     (case GetCustomer s id' of ((p, e), s') \<Rightarrow> Some (getCustomerResponse p e, s'))"
| "MakeGetCustomerEndpoint s _ = None"

fun MakePutCustomerEndpoint :: "inmemService \<Rightarrow> request \<Rightarrow> (response \<times> inmemService) option" where
  "MakePutCustomerEndpoint s (putCustomerRequest id' c) =
     (case PutCustomer s id' c of (e, s') \<Rightarrow> Some (putCustomerResponse e, s'))"
| "MakePutCustomerEndpoint s _ = None"

fun MakePatchCustomerEndpoint :: "inmemService \<Rightarrow> request \<Rightarrow> (response \<times> inmemService) option" where
  "MakePatchCustomerEndpoint s (patchCustomerRequest id' c) =
     (case PatchCustomer s id' c of (e, s') \<Rightarrow> Some (patchCustomerResponse e, s'))"
| "MakePatchCustomerEndpoint s _ = None"

fun MakeDeleteCustomerEndpoint :: "inmemService \<Rightarrow> request \<Rightarrow> (response \<times> inmemService) option" where
  "MakeDeleteCustomerEndpoint s (deleteCustomerRequest id') =
     (case DeleteCustomer s id' of (e, s') \<Rightarrow> Some (deleteCustomerResponse e, s'))"
| "MakeDeleteCustomerEndpoint s _ = None"

fun MakeGetAddressesEndpoint :: "inmemService \<Rightarrow> request \<Rightarrow> (response \<times> inmemService) option" where
  "MakeGetAddressesEndpoint s (getAddressesRequest customerID) =
     (case GetAddresses s customerID of ((a, e), s') \<Rightarrow> Some (getAddressesResponse a e, s'))"
| "MakeGetAddressesEndpoint s _ = None"

fun MakeGetAddressEndpoint :: "inmemService \<Rightarrow> request \<Rightarrow> (response \<times> inmemService) option" where
  "MakeGetAddressEndpoint s (getAddressRequest customerID addressID) =
     (case GetAddress s customerID addressID of
        ((a, e), s') \<Rightarrow> Some (getAddressResponse a e, s'))"
| "MakeGetAddressEndpoint s _ = None"

fun MakePostAddressEndpoint :: "inmemService \<Rightarrow> request \<Rightarrow> (response \<times> inmemService) option" where
  "MakePostAddressEndpoint s (postAddressRequest customerID a) =
     (case PostAddress s customerID a of (e, s') \<Rightarrow> Some (postAddressResponse e, s'))"
| "MakePostAddressEndpoint s _ = None"

fun MakeDeleteAddressEndpoint :: "inmemService \<Rightarrow> request \<Rightarrow> (response \<times> inmemService) option" where
  "MakeDeleteAddressEndpoint s (deleteAddressRequest customerID addressID) =
     (case DeleteAddress s customerID addressID of
        (e, s') \<Rightarrow> Some (deleteAddressResponse e, s'))"
| "MakeDeleteAddressEndpoint s _ = None"

section \<open>HTTP transport: encoding a response\<close>

text \<open>What a handler has written to its \<^verbatim>\<open>http.ResponseWriter\<close>: the headers set, the
  status passed to \<^verbatim>\<open>WriteHeader\<close> (if it was called) and the JSON document encoded
  into the body, which is either the error object \<^verbatim>\<open>{"error": msg}\<close> or the encoding
  of a response value.\<close>

datatype json_body = ErrorJSON string | ResponseJSON response

record ResponseWriter =
  Header :: "string \<rightharpoonup> string"
  WriteHeader :: "nat option"
  Body :: "json_body option"

definition newResponseWriter :: ResponseWriter where
  "newResponseWriter = \<lparr>Header = Map.empty, WriteHeader = None, Body = None\<rparr>"

text \<open>The status the client receives: 200 unless \<^verbatim>\<open>WriteHeader\<close> was called.\<close>

definition statusCode :: "ResponseWriter \<Rightarrow> nat" where
  "statusCode w = (case WriteHeader w of None \<Rightarrow> 200 | Some code \<Rightarrow> code)"

fun codeFrom :: "err \<Rightarrow> nat" where
  "codeFrom ErrNotFound = 404"
| "codeFrom ErrAlreadyExists = 400"
| "codeFrom ErrInconsistentIDs = 400"
| "codeFrom _ = 500"

text \<open>\<^verbatim>\<open>encodeError\<close> panics on a \<^verbatim>\<open>nil\<close> error: the result \<^const>\<open>None\<close>.\<close>

definition encodeError :: "err option \<Rightarrow> ResponseWriter \<Rightarrow> ResponseWriter option" where
  "encodeError e w =
     (case e of
        None \<Rightarrow> None
      | Some er \<Rightarrow>
          Some (w\<lparr>Header := (Header w)(''Content-Type'' \<mapsto> ''application/json; charset=utf-8''),
                  WriteHeader := Some (codeFrom er),
                  Body := Some (ErrorJSON (Error er))\<rparr>))"

definition encodeResponse :: "ResponseWriter \<Rightarrow> response \<Rightarrow> ResponseWriter option" where
  "encodeResponse w resp =
     (case error resp of
        Some er \<Rightarrow> encodeError (error resp) w
      | None \<Rightarrow>
          Some (w\<lparr>Header := (Header w)(''Content-Type'' \<mapsto> ''application/json; charset=utf-8''),
                  Body := Some (ResponseJSON resp)\<rparr>))"

text \<open>The routes of \<^verbatim>\<open>MakeHTTPHandler\<close>, after the request has been decoded: each
  request type goes to the endpoint mounted on its route, and the endpoint's response
  to \<^verbatim>\<open>encodeResponse\<close> on a fresh writer.\<close>

fun endpointFor :: "request \<Rightarrow> inmemService \<Rightarrow> request \<Rightarrow> (response \<times> inmemService) option" where
  "endpointFor (postCustomerRequest _) = MakePostCustomerEndpoint"
| "endpointFor (getCustomerRequest _) = MakeGetCustomerEndpoint"
| "endpointFor (putCustomerRequest _ _) = MakePutCustomerEndpoint"
| "endpointFor (patchCustomerRequest _ _) = MakePatchCustomerEndpoint"
| "endpointFor (deleteCustomerRequest _) = MakeDeleteCustomerEndpoint"
| "endpointFor (getAddressesRequest _) = MakeGetAddressesEndpoint"
| "endpointFor (getAddressRequest _ _) = MakeGetAddressEndpoint"
| "endpointFor (postAddressRequest _ _) = MakePostAddressEndpoint"
| "endpointFor (deleteAddressRequest _ _) = MakeDeleteAddressEndpoint"

definition serveHTTP :: "inmemService \<Rightarrow> request \<Rightarrow> (ResponseWriter \<times> inmemService) option" where
  "serveHTTP s req =
     (case endpointFor req s req of
        None \<Rightarrow> None
      | Some (resp, s') \<Rightarrow>
          (case encodeResponse newResponseWriter resp of
             None \<Rightarrow> None
           | Some w \<Rightarrow> Some (w, s')))"

section \<open>Sequences of service calls\<close>

text \<open>The state a service call leaves behind, and the state reached from a given one by
  a sequence of calls.\<close>

fun call :: "inmemService \<Rightarrow> request \<Rightarrow> inmemService" where
  "call s (postCustomerRequest c) = snd (PostCustomer s c)"
| "call s (getCustomerRequest id') = snd (GetCustomer s id')"
| "call s (putCustomerRequest id' c) = snd (PutCustomer s id' c)"
| "call s (patchCustomerRequest id' c) = snd (PatchCustomer s id' c)"
| "call s (deleteCustomerRequest id') = snd (DeleteCustomer s id')"
| "call s (getAddressesRequest customerID) = snd (GetAddresses s customerID)"
| "call s (getAddressRequest customerID addressID) = snd (GetAddress s customerID addressID)"
| "call s (postAddressRequest customerID a) = snd (PostAddress s customerID a)"
| "call s (deleteAddressRequest customerID addressID) = snd (DeleteAddress s customerID addressID)"

definition calls :: "inmemService \<Rightarrow> request list \<Rightarrow> inmemService" where
  "calls s reqs = foldl call s reqs"

section \<open>Invariants and observations\<close>

text \<open>Every stored record sits under its own identifier.\<close>

definition keysMatch :: "inmemService \<Rightarrow> bool" where
  "keysMatch s = (\<forall>k c. customers s k = Some c \<longrightarrow> Customer.ID c = k)"

text \<open>No stored record holds two addresses with the same identifier.\<close>

definition addressesUnique :: "inmemService \<Rightarrow> bool" where
  "addressesUnique s =
     (\<forall>k c. customers s k = Some c \<longrightarrow> distinct (map Address.ID (Addresses c)))"

text \<open>The error a request's service operation returns, the address list a request
  carries in a customer payload, and the requests of the PUT route.\<close>

fun serviceError :: "inmemService \<Rightarrow> request \<Rightarrow> err option" where
  "serviceError s (postCustomerRequest c) = fst (PostCustomer s c)"
| "serviceError s (getCustomerRequest id') = snd (fst (GetCustomer s id'))"
| "serviceError s (putCustomerRequest id' c) = fst (PutCustomer s id' c)"
| "serviceError s (patchCustomerRequest id' c) = fst (PatchCustomer s id' c)"
| "serviceError s (deleteCustomerRequest id') = fst (DeleteCustomer s id')"
| "serviceError s (getAddressesRequest customerID) = snd (fst (GetAddresses s customerID))"
| "serviceError s (getAddressRequest customerID addressID) =
     snd (fst (GetAddress s customerID addressID))"
| "serviceError s (postAddressRequest customerID a) = fst (PostAddress s customerID a)"
| "serviceError s (deleteAddressRequest customerID addressID) =
     fst (DeleteAddress s customerID addressID)"

fun payloadAddresses :: "request \<Rightarrow> Address list" where
  "payloadAddresses (postCustomerRequest c) = Addresses c"
| "payloadAddresses (putCustomerRequest _ c) = Addresses c"
| "payloadAddresses (patchCustomerRequest _ c) = Addresses c"
| "payloadAddresses _ = []"

fun isPut :: "request \<Rightarrow> bool" where
  "isPut (putCustomerRequest _ _) = True"
| "isPut _ = False"

section \<open>Example data\<close>

definition alice :: Customer where
  "alice = \<lparr>Customer.ID = ''1'', Name = ''A'', Email = ''a@x.com'', Phone = '''', Addresses = []\<rparr>"

definition withAlice :: inmemService where
  "withAlice = \<lparr>customers = [''1'' \<mapsto> alice]\<rparr>"

definition home :: Address where
  "home = \<lparr>Address.ID = ''a1'', Location = ''Home''\<rparr>"

definition work :: Address where
  "work = \<lparr>Address.ID = ''a2'', Location = ''Work''\<rparr>"

definition club :: Address where
  "club = \<lparr>Address.ID = ''a3'', Location = ''Club''\<rparr>"

definition withAddresses :: inmemService where
  "withAddresses = \<lparr>customers = [''1'' \<mapsto> alice\<lparr>Addresses := [home, work, club]\<rparr>]\<rparr>"

text \<open>A payload whose identifier is not the path identifier \<open>''1''\<close>, a partial payload
  that carries an email and a phone number only, and a payload with two addresses under
  one identifier.\<close>

definition mismatched :: Customer where
  "mismatched = alice\<lparr>Customer.ID := ''2''\<rparr>"

definition emailPatch :: Customer where
  "emailPatch =
     \<lparr>Customer.ID = '''', Name = '''', Email = ''b@x.com'', Phone = ''555'', Addresses = []\<rparr>"

definition twins :: Customer where
  "twins = alice\<lparr>Addresses := [home, home\<lparr>Location := ''Work''\<rparr>]\<rparr>"

definition session :: "request list" where
  "session = [postCustomerRequest alice,
              putCustomerRequest ''2'' (alice\<lparr>Customer.ID := ''2'', Name := ''B''\<rparr>),
              putCustomerRequest ''3'' (alice\<lparr>Customer.ID := ''3'', Addresses := [home, work]\<rparr>),
              patchCustomerRequest ''1'' (alice\<lparr>Customer.ID := '''', Name := ''C''\<rparr>),
              postAddressRequest ''1'' home,
              deleteAddressRequest ''3'' ''a1'',
              deleteCustomerRequest ''2'']"

section \<open>Create, Replace and Get\<close>

text \<open>
  Claim C4. For every customer payload, Create (\<^verbatim>\<open>PostCustomer\<close>) fails with
  \<^verbatim>\<open>ErrMissingRequiredInputs\<close> when the payload's name or its email is empty, whatever
  the store holds; fails with \<^verbatim>\<open>ErrAlreadyExists\<close> when both are non-empty and the
  identifier is already a key of the store; and otherwise returns no error and stores
  the payload under its identifier. A failing call leaves the store as it was.
\<close>

theorem PostCustomer_cases:
  "(Name p = '''' \<or> Email p = '''' \<longrightarrow> PostCustomer s p = (Some ErrMissingRequiredInputs, s)) \<and>
   (Name p \<noteq> '''' \<and> Email p \<noteq> '''' \<and> Customer.ID p \<in> dom (customers s) \<longrightarrow>
      PostCustomer s p = (Some ErrAlreadyExists, s)) \<and>
   (Name p \<noteq> '''' \<and> Email p \<noteq> '''' \<and> Customer.ID p \<notin> dom (customers s) \<longrightarrow>
      PostCustomer s p = (None, s\<lparr>customers := (customers s)(Customer.ID p \<mapsto> p)\<rparr>))"
  by (auto simp: PostCustomer_def split: option.splits)

theorem PostCustomer_cases_witness:
  "PostCustomer withAlice (alice\<lparr>Email := ''''\<rparr>) = (Some ErrMissingRequiredInputs, withAlice) \<and>
   PostCustomer withAlice alice = (Some ErrAlreadyExists, withAlice) \<and>
   PostCustomer NewInmemService alice = (None, withAlice)"
  using PostCustomer_cases [of "alice\<lparr>Email := ''''\<rparr>" withAlice]
    PostCustomer_cases [of alice withAlice]
    PostCustomer_cases [of alice NewInmemService]
  by (simp add: alice_def withAlice_def NewInmemService_def)

text \<open>
  Claim C5. For every path identifier and payload, Replace (\<^verbatim>\<open>PutCustomer\<close>) fails
  with \<^verbatim>\<open>ErrInconsistentIDs\<close> exactly when the path identifier differs from the
  payload's, leaving the store unchanged whether or not the identifier is a key of it;
  otherwise it stores the payload under the identifier, whether or not a record was
  there and whatever the payload's other fields hold.
\<close>

theorem PutCustomer_cases:
  "(id' \<noteq> Customer.ID p \<longrightarrow> PutCustomer s id' p = (Some ErrInconsistentIDs, s)) \<and>
   (id' = Customer.ID p \<longrightarrow>
      PutCustomer s id' p = (None, s\<lparr>customers := (customers s)(id' \<mapsto> p)\<rparr>)) \<and>
   (fst (PutCustomer s id' p) = Some ErrInconsistentIDs \<longleftrightarrow> id' \<noteq> Customer.ID p)"
  by (simp add: PutCustomer_def)

theorem PutCustomer_cases_witness:
  "PutCustomer withAlice ''2'' alice = (Some ErrInconsistentIDs, withAlice) \<and>
   PutCustomer NewInmemService ''2'' alice = (Some ErrInconsistentIDs, NewInmemService) \<and>
   PutCustomer NewInmemService ''1'' alice = (None, withAlice) \<and>
   PutCustomer withAlice ''1'' (alice\<lparr>Name := '''', Email := ''''\<rparr>) =
     (None, \<lparr>customers = [''1'' \<mapsto> alice\<lparr>Name := '''', Email := ''''\<rparr>]\<rparr>)"
  using PutCustomer_cases [of "''2''" alice withAlice]
    PutCustomer_cases [of "''2''" alice NewInmemService]
    PutCustomer_cases [of "''1''" alice NewInmemService]
    PutCustomer_cases [of "''1''" "alice\<lparr>Name := '''', Email := ''''\<rparr>" withAlice]
  by (simp add: alice_def withAlice_def NewInmemService_def)

text \<open>
  Claim C8. For every customer \<open>C\<close> with a non-empty name and a non-empty email whose
  identifier is not yet a key of the store, Create succeeds and a following Get of
  \<open>C\<close>'s identifier succeeds and returns a customer equal to \<open>C\<close>.
\<close>

theorem PostCustomer_then_GetCustomer:
  assumes "Name C \<noteq> ''''" and "Email C \<noteq> ''''" and "customers s (Customer.ID C) = None"
  shows "fst (PostCustomer s C) = None \<and>
         fst (GetCustomer (snd (PostCustomer s C)) (Customer.ID C)) = (C, None)"
  using assms by (simp add: PostCustomer_def GetCustomer_def)

theorem PostCustomer_then_GetCustomer_witness:
  "Name alice \<noteq> '''' \<and> Email alice \<noteq> '''' \<and> customers NewInmemService (Customer.ID alice) = None \<and>
   fst (PostCustomer NewInmemService alice) = None \<and>
   fst (GetCustomer (snd (PostCustomer NewInmemService alice)) ''1'') = (alice, None)"
  using PostCustomer_then_GetCustomer [of alice NewInmemService]
  by (simp add: alice_def NewInmemService_def)

text \<open>
  Claim C9. For every customer \<open>C\<close> with a non-empty name and a non-empty email whose
  identifier is not a key of the store, the first Create succeeds, a second Create of
  \<open>C\<close> fails with \<^verbatim>\<open>ErrAlreadyExists\<close>, and the store after both calls is the store
  after the first call.
\<close>

theorem PostCustomer_twice:
  assumes "Name C \<noteq> ''''" and "Email C \<noteq> ''''" and "customers s (Customer.ID C) = None"
  shows "fst (PostCustomer s C) = None \<and>
         PostCustomer (snd (PostCustomer s C)) C = (Some ErrAlreadyExists, snd (PostCustomer s C))"
  using assms by (simp add: PostCustomer_def)

theorem PostCustomer_twice_witness:
  "Name alice \<noteq> '''' \<and> Email alice \<noteq> '''' \<and> customers NewInmemService (Customer.ID alice) = None \<and>
   fst (PostCustomer NewInmemService alice) = None \<and>
   PostCustomer (snd (PostCustomer NewInmemService alice)) alice =
     (Some ErrAlreadyExists, snd (PostCustomer NewInmemService alice))"
  using PostCustomer_twice [of alice NewInmemService]
  by (simp add: alice_def NewInmemService_def)

section \<open>Operations on a customer that is not in the store\<close>

text \<open>
  Claim C6, as stated: each of Get, Delete, Update, ListAddresses, GetAddress, AddAddress
  and RemoveAddress, called with an identifier that is not a key of the store, fails with
  \<^verbatim>\<open>ErrNotFound\<close> and leaves the store unchanged. Update does not: it compares the
  path identifier with the payload's before it looks the customer up, so on the empty
  store an Update of \<open>''1''\<close> whose payload is identified \<open>''2''\<close> fails with
  \<^verbatim>\<open>ErrInconsistentIDs\<close>.
\<close>

theorem PatchCustomer_missing_counterexample:
  "customers NewInmemService ''1'' = None \<and>
   PatchCustomer NewInmemService ''1'' mismatched = (Some ErrInconsistentIDs, NewInmemService) \<and>
   fst (PatchCustomer NewInmemService ''1'' mismatched) \<noteq> Some ErrNotFound"
  by (simp add: PatchCustomer_def NewInmemService_def mismatched_def alice_def)

text \<open>
  Claim C6, amended: for every store and every identifier that is not a key of it, Get,
  Delete, ListAddresses, GetAddress, AddAddress and RemoveAddress fail with
  \<^verbatim>\<open>ErrNotFound\<close>, and so does Update when its payload's identifier is empty or equal
  to the path identifier; an Update whose payload carries another, non-empty identifier
  fails with \<^verbatim>\<open>ErrInconsistentIDs\<close>. In every one of these cases the store is left
  exactly as it was.
\<close>

theorem missing_customer_NotFound:
  assumes "customers s id' = None"
  shows "GetCustomer s id' = ((zeroCustomer, Some ErrNotFound), s) \<and>
         DeleteCustomer s id' = (Some ErrNotFound, s) \<and>
         (Customer.ID p = '''' \<or> Customer.ID p = id' \<longrightarrow>
            PatchCustomer s id' p = (Some ErrNotFound, s)) \<and>
         (Customer.ID p \<noteq> '''' \<and> Customer.ID p \<noteq> id' \<longrightarrow>
            PatchCustomer s id' p = (Some ErrInconsistentIDs, s)) \<and>
         GetAddresses s id' = (([], Some ErrNotFound), s) \<and>
         GetAddress s id' addressID = ((zeroAddress, Some ErrNotFound), s) \<and>
         PostAddress s id' a = (Some ErrNotFound, s) \<and>
         DeleteAddress s id' addressID = (Some ErrNotFound, s)"
  using assms
  by (auto simp: GetCustomer_def DeleteCustomer_def PatchCustomer_def GetAddresses_def
      GetAddress_def PostAddress_def DeleteAddress_def)

theorem missing_customer_NotFound_witness:
  "customers withAlice ''7'' = None \<and>
   GetCustomer withAlice ''7'' = ((zeroCustomer, Some ErrNotFound), withAlice) \<and>
   DeleteCustomer withAlice ''7'' = (Some ErrNotFound, withAlice) \<and>
   PatchCustomer withAlice ''7'' (alice\<lparr>Customer.ID := ''''\<rparr>) = (Some ErrNotFound, withAlice) \<and>
   PatchCustomer withAlice ''7'' (alice\<lparr>Customer.ID := ''7''\<rparr>) = (Some ErrNotFound, withAlice) \<and>
   PatchCustomer withAlice ''7'' alice = (Some ErrInconsistentIDs, withAlice) \<and>
   GetAddresses withAlice ''7'' = (([], Some ErrNotFound), withAlice) \<and>
   GetAddress withAlice ''7'' ''a1'' = ((zeroAddress, Some ErrNotFound), withAlice) \<and>
   PostAddress withAlice ''7'' home = (Some ErrNotFound, withAlice) \<and>
   DeleteAddress withAlice ''7'' ''a1'' = (Some ErrNotFound, withAlice)"
  using missing_customer_NotFound [of withAlice "''7''" "alice\<lparr>Customer.ID := ''''\<rparr>" "''a1''" home]
    missing_customer_NotFound [of withAlice "''7''" "alice\<lparr>Customer.ID := ''7''\<rparr>" "''a1''" home]
    missing_customer_NotFound [of withAlice "''7''" alice "''a1''" home]
  by (simp add: withAlice_def alice_def)

section \<open>Removing an address\<close>

text \<open>\<^verbatim>\<open>DeleteAddress\<close> decides that nothing matched by comparing lengths: the kept
  addresses are as many as the stored ones exactly when every stored one was kept.\<close>

lemma length_filter_eq_iff:
  "length (filter P xs) = length xs \<longleftrightarrow> (\<forall>x\<in>set xs. P x)"
proof (induction xs)
  case Nil
  show ?case by simp
next
  case (Cons a xs)
  have "length (filter P xs) \<noteq> Suc (length xs)"
    using length_filter_le [of P xs] by arith
  with Cons show ?case by auto
qed

lemma filter_remove_unique:
  assumes "distinct (map f xs)" and "x \<in> set xs"
  shows "\<exists>ys zs. xs = ys @ x # zs \<and> filter (\<lambda>y. f y \<noteq> f x) xs = ys @ zs"
proof -
  from assms(2) obtain ys zs where xs: "xs = ys @ x # zs"
    by (auto simp: in_set_conv_decomp)
  with assms(1) have "f x \<notin> f ` set ys" and "f x \<notin> f ` set zs"
    by auto
  then have "\<forall>y\<in>set ys. f y \<noteq> f x" and "\<forall>y\<in>set zs. f y \<noteq> f x"
    by (auto intro: rev_image_eqI)
  then have "filter (\<lambda>y. f y \<noteq> f x) xs = ys @ zs"
    by (simp add: xs)
  with xs show ?thesis by blast
qed

text \<open>
  Claim C7, as stated: for every customer in the store and every address identifier,
  RemoveAddress (\<^verbatim>\<open>DeleteAddress\<close>) fails with \<^verbatim>\<open>ErrNotFound\<close> when no address
  of the customer has that identifier, and otherwise removes exactly the matching address
  and keeps the others in their order. The loop of \<^verbatim>\<open>DeleteAddress\<close> skips every
  address of that identifier, not the first one only: in the store reached by one Create
  of a customer with two addresses identified \<open>''a1''\<close>, removing \<open>''a1''\<close> succeeds
  and leaves the customer with no address at all, which is not the stored list with one
  address taken out.
\<close>

theorem DeleteAddress_duplicates_counterexample:
  "customers (calls NewInmemService [postCustomerRequest twins]) ''1'' = Some twins \<and>
   Addresses twins = [home, home\<lparr>Location := ''Work''\<rparr>] \<and>
   DeleteAddress (calls NewInmemService [postCustomerRequest twins]) ''1'' ''a1'' =
     (None, \<lparr>customers = [''1'' \<mapsto> twins\<lparr>Addresses := []\<rparr>]\<rparr>) \<and>
   \<not> (\<exists>before a after. Addresses twins = before @ a # after \<and>
          Address.ID a = ''a1'' \<and> [] = before @ after)"
  by (simp add: calls_def PostCustomer_def DeleteAddress_def NewInmemService_def
      twins_def alice_def home_def)

text \<open>
  Claim C7, amended: for every customer in the store and every address identifier,
  RemoveAddress fails with \<^verbatim>\<open>ErrNotFound\<close> and leaves the store, hence the
  customer's list, unchanged when no address of the customer has that identifier.
  Otherwise it succeeds and changes nothing but that customer's address list, which
  becomes the old list without every address of that identifier, the others in their
  old order; when the identifiers of the list are distinct, that is the old list with
  exactly the one matching address taken out.
\<close>

theorem DeleteAddress_cases:
  assumes "customers s customerID = Some p"
  shows "((\<forall>a\<in>set (Addresses p). Address.ID a \<noteq> addressID) \<longrightarrow>
            DeleteAddress s customerID addressID = (Some ErrNotFound, s)) \<and>
         ((\<exists>a\<in>set (Addresses p). Address.ID a = addressID) \<longrightarrow>
            (\<exists>new. DeleteAddress s customerID addressID =
                 (None, s\<lparr>customers := (customers s)(customerID \<mapsto> p\<lparr>Addresses := new\<rparr>)\<rparr>) \<and>
               new = filter (\<lambda>a. Address.ID a \<noteq> addressID) (Addresses p) \<and>
               (distinct (map Address.ID (Addresses p)) \<longrightarrow>
                  (\<exists>before a after. Addresses p = before @ a # after \<and>
                     Address.ID a = addressID \<and> new = before @ after))))"
proof (intro conjI impI)
  assume "\<forall>a\<in>set (Addresses p). Address.ID a \<noteq> addressID"
  then show "DeleteAddress s customerID addressID = (Some ErrNotFound, s)"
    using assms by (simp add: DeleteAddress_def length_filter_eq_iff)
next
  assume ex: "\<exists>a\<in>set (Addresses p). Address.ID a = addressID"
  let ?new = "filter (\<lambda>a. Address.ID a \<noteq> addressID) (Addresses p)"
  from ex have "length ?new \<noteq> length (Addresses p)"
    by (simp add: length_filter_eq_iff)
  then have res: "DeleteAddress s customerID addressID =
      (None, s\<lparr>customers := (customers s)(customerID \<mapsto> p\<lparr>Addresses := ?new\<rparr>)\<rparr>)"
    using assms by (simp add: DeleteAddress_def)
  have one: "\<exists>before a after. Addresses p = before @ a # after \<and>
      Address.ID a = addressID \<and> ?new = before @ after"
    if d: "distinct (map Address.ID (Addresses p))"
  proof -
    from ex obtain a where a: "a \<in> set (Addresses p)" "Address.ID a = addressID" by blast
    from filter_remove_unique [OF d a(1)] a(2) show ?thesis by blast
  qed
  from res one
  show "\<exists>new. DeleteAddress s customerID addressID =
                 (None, s\<lparr>customers := (customers s)(customerID \<mapsto> p\<lparr>Addresses := new\<rparr>)\<rparr>) \<and>
               new = filter (\<lambda>a. Address.ID a \<noteq> addressID) (Addresses p) \<and>
               (distinct (map Address.ID (Addresses p)) \<longrightarrow>
                  (\<exists>before a after. Addresses p = before @ a # after \<and>
                     Address.ID a = addressID \<and> new = before @ after))"
    by blast
qed

theorem DeleteAddress_cases_witness:
  "customers withAddresses ''1'' = Some (alice\<lparr>Addresses := [home, work, club]\<rparr>) \<and>
   DeleteAddress withAddresses ''1'' ''a9'' = (Some ErrNotFound, withAddresses) \<and>
   DeleteAddress withAddresses ''1'' ''a2'' =
     (None, \<lparr>customers = [''1'' \<mapsto> alice\<lparr>Addresses := [home, club]\<rparr>]\<rparr>)"
  using DeleteAddress_cases [of withAddresses "''1''" "alice\<lparr>Addresses := [home, work, club]\<rparr>" "''a9''"]
    DeleteAddress_cases [of withAddresses "''1''" "alice\<lparr>Addresses := [home, work, club]\<rparr>" "''a2''"]
  by (simp add: withAddresses_def alice_def home_def work_def club_def)

section \<open>Stored records sit under their own identifier\<close>

lemma keysMatch_New: "keysMatch NewInmemService"
  by (simp add: keysMatch_def NewInmemService_def)

lemma keysMatch_call:
  assumes "keysMatch s"
  shows "keysMatch (call s req)"
proof (cases req)
  case (postCustomerRequest c)
  with assms show ?thesis
    by (auto simp: keysMatch_def PostCustomer_def split: option.splits)
next
  case (getCustomerRequest i)
  with assms show ?thesis
    by (simp add: GetCustomer_def split: option.splits)
next
  case (putCustomerRequest i c)
  with assms show ?thesis
    by (auto simp: keysMatch_def PutCustomer_def)
next
  case (patchCustomerRequest i c)
  with assms show ?thesis
    by (auto simp: keysMatch_def PatchCustomer_def Let_def split: option.splits)
next
  case (deleteCustomerRequest i)
  with assms show ?thesis
    by (auto simp: keysMatch_def DeleteCustomer_def split: option.splits)
next
  case (getAddressesRequest i)
  with assms show ?thesis
    by (simp add: GetAddresses_def split: option.splits)
next
  case (getAddressRequest i j)
  with assms show ?thesis
    by (simp add: GetAddress_def split: option.splits)
next
  case (postAddressRequest i a)
  with assms show ?thesis
    by (auto simp: keysMatch_def PostAddress_def split: option.splits)
next
  case (deleteAddressRequest i j)
  with assms show ?thesis
    by (auto simp: keysMatch_def DeleteAddress_def Let_def split: option.splits)
qed

lemma keysMatch_calls: "keysMatch s \<Longrightarrow> keysMatch (calls s reqs)"
  unfolding calls_def
  by (induction reqs arbitrary: s) (simp_all add: keysMatch_call)

text \<open>
  Claim C10. In every store state reached from the empty store by a sequence of calls of
  the nine service operations, each stored customer record's identifier field equals the
  key under which the record is stored.
\<close>

theorem reachable_ID_is_key:
  assumes "customers (calls NewInmemService reqs) k = Some c"
  shows "Customer.ID c = k"
  using keysMatch_calls [OF keysMatch_New, of reqs] assms
  by (simp add: keysMatch_def)

theorem reachable_ID_is_key_witness:
  "customers (calls NewInmemService session) ''1'' =
     Some (alice\<lparr>Name := ''C'', Addresses := [home]\<rparr>) \<and>
   Customer.ID (alice\<lparr>Name := ''C'', Addresses := [home]\<rparr>) = ''1''"
  using reachable_ID_is_key [of session "''1''" "alice\<lparr>Name := ''C'', Addresses := [home]\<rparr>"]
  by (simp add: calls_def session_def NewInmemService_def alice_def home_def work_def
      PostCustomer_def PutCustomer_def PatchCustomer_def PostAddress_def DeleteAddress_def
      DeleteCustomer_def)

section \<open>Address identifiers\<close>

text \<open>
  Claim C3 says that no store state reached from the empty store holds a customer with
  two addresses under one identifier. The type \<^verbatim>\<open>Address\<close> is documented so
  (``ID should be unique within the customer'') and \<^verbatim>\<open>PostAddress\<close> refuses a
  duplicate, but Create stores the address list of its payload unchecked (Replace and
  Update do as well): one Create of a customer whose two addresses are both identified
  \<open>''a1''\<close> reaches a store that holds that customer.
\<close>

theorem duplicate_address_ids_reachable:
  "customers (calls NewInmemService [postCustomerRequest twins]) ''1'' = Some twins \<and>
   map Address.ID (Addresses twins) = [''a1'', ''a1''] \<and>
   \<not> distinct (map Address.ID (Addresses twins))"
  by (simp add: calls_def PostCustomer_def NewInmemService_def twins_def alice_def home_def)

lemma addressesUnique_New: "addressesUnique NewInmemService"
  by (simp add: addressesUnique_def NewInmemService_def)

lemma addressesUnique_call:
  assumes "addressesUnique s" and "distinct (map Address.ID (payloadAddresses req))"
  shows "addressesUnique (call s req)"
proof (cases req)
  case (postCustomerRequest c)
  with assms show ?thesis
    by (auto simp: addressesUnique_def PostCustomer_def split: option.splits)
next
  case (getCustomerRequest i)
  with assms show ?thesis
    by (simp add: GetCustomer_def split: option.splits)
next
  case (putCustomerRequest i c)
  with assms show ?thesis
    by (auto simp: addressesUnique_def PutCustomer_def)
next
  case (patchCustomerRequest i c)
  with assms show ?thesis
    by (auto simp: addressesUnique_def PatchCustomer_def Let_def split: option.splits)
next
  case (deleteCustomerRequest i)
  with assms show ?thesis
    by (auto simp: addressesUnique_def DeleteCustomer_def split: option.splits)
next
  case (getAddressesRequest i)
  with assms show ?thesis
    by (simp add: GetAddresses_def split: option.splits)
next
  case (getAddressRequest i j)
  with assms show ?thesis
    by (simp add: GetAddress_def split: option.splits)
next
  case (postAddressRequest i a)
  with assms show ?thesis
    by (auto simp: addressesUnique_def PostAddress_def list_ex_iff split: option.splits)
next
  case (deleteAddressRequest i j)
  with assms show ?thesis
    by (auto simp: addressesUnique_def DeleteAddress_def Let_def distinct_map_filter
        split: option.splits)
qed

lemma addressesUnique_calls:
  "addressesUnique s \<Longrightarrow> \<forall>req\<in>set reqs. distinct (map Address.ID (payloadAddresses req)) \<Longrightarrow>
   addressesUnique (calls s reqs)"
  unfolding calls_def
  by (induction reqs arbitrary: s) (simp_all add: addressesUnique_call)

text \<open>
  What the service does keep: when every customer payload passed to Create, Replace and
  Update carries addresses with pairwise distinct identifiers, every store state reached
  from the empty store holds only customers whose address identifiers are pairwise
  distinct; \<^verbatim>\<open>PostAddress\<close> and \<^verbatim>\<open>DeleteAddress\<close> never introduce a duplicate.
  This rests on slices taken by value: it covers payloads with backing arrays of their
  own, as the JSON decoders of the transport produce them. A caller inside the process
  that stores one slice with spare capacity under two customers can have the
  \<^verbatim>\<open>append\<close> of \<^verbatim>\<open>PostAddress\<close> for one of them overwrite an element of
  the other's list, which this statement does not cover.
\<close>

theorem address_ids_unique_for_distinct_payloads:
  assumes "\<forall>req\<in>set reqs. distinct (map Address.ID (payloadAddresses req))"
    and "customers (calls NewInmemService reqs) k = Some c"
  shows "distinct (map Address.ID (Addresses c))"
  using addressesUnique_calls [OF addressesUnique_New assms(1)] assms(2)
  by (simp add: addressesUnique_def)

theorem address_ids_unique_for_distinct_payloads_witness:
  "list_all (\<lambda>req. distinct (map Address.ID (payloadAddresses req))) session \<and>
   customers (calls NewInmemService session) ''3'' =
     Some (alice\<lparr>Customer.ID := ''3'', Addresses := [work]\<rparr>) \<and>
   distinct (map Address.ID (Addresses (alice\<lparr>Customer.ID := ''3'', Addresses := [work]\<rparr>)))"
  using address_ids_unique_for_distinct_payloads
    [of session "''3''" "alice\<lparr>Customer.ID := ''3'', Addresses := [work]\<rparr>"]
  by (simp add: calls_def session_def NewInmemService_def alice_def home_def work_def
      PostCustomer_def PutCustomer_def PatchCustomer_def PostAddress_def DeleteAddress_def
      DeleteCustomer_def)

section \<open>Partial update\<close>

text \<open>
  Claim C2 says that Update (\<^verbatim>\<open>PatchCustomer\<close>) copies every non-empty field of
  the payload, email and phone included, into the stored record. The comment in
  \<^verbatim>\<open>PatchCustomer\<close> says the same (a zero value means not specified), but the
  function copies the name and the address list only: an Update of customer \<open>''1''\<close>
  whose payload carries a new email and a phone number succeeds and leaves the store,
  with the old email and the empty phone number, exactly as it was.
\<close>

theorem PatchCustomer_ignores_Email_Phone:
  "PatchCustomer withAlice ''1'' emailPatch = (None, withAlice) \<and>
   customers withAlice ''1'' = Some alice \<and>
   Email emailPatch = ''b@x.com'' \<and> Email alice = ''a@x.com'' \<and>
   Phone emailPatch = ''555'' \<and> Phone alice = ''''"
  by (simp add: PatchCustomer_def withAlice_def emailPatch_def alice_def)

text \<open>
  What Update does merge: for a stored customer and a payload whose identifier is empty
  or equal to the path identifier, it succeeds and stores a record whose name is the
  payload's unless that is empty, whose address list is the payload's unless that is
  empty, and whose identifier, email and phone number are the stored ones.
\<close>

theorem PatchCustomer_merge:
  assumes "customers s id' = Some existing" and "Customer.ID p = '''' \<or> Customer.ID p = id'"
  shows "\<exists>merged. PatchCustomer s id' p = (None, s\<lparr>customers := (customers s)(id' \<mapsto> merged)\<rparr>) \<and>
           Name merged = (if Name p = '''' then Name existing else Name p) \<and>
           Addresses merged = (if Addresses p = [] then Addresses existing else Addresses p) \<and>
           Customer.ID merged = Customer.ID existing \<and>
           Email merged = Email existing \<and> Phone merged = Phone existing"
  using assms by (auto simp: PatchCustomer_def Let_def)

theorem PatchCustomer_merge_witness:
  "customers withAlice ''1'' = Some alice \<and>
   PatchCustomer withAlice ''1'' (emailPatch\<lparr>Name := ''Z''\<rparr>) =
     (None, \<lparr>customers = [''1'' \<mapsto> alice\<lparr>Name := ''Z''\<rparr>]\<rparr>) \<and>
   PatchCustomer withAlice ''1'' (emailPatch\<lparr>Customer.ID := ''1'', Addresses := [home]\<rparr>) =
     (None, \<lparr>customers = [''1'' \<mapsto> alice\<lparr>Addresses := [home]\<rparr>]\<rparr>)"
  using PatchCustomer_merge [of withAlice "''1''" alice "emailPatch\<lparr>Name := ''Z''\<rparr>"]
    PatchCustomer_merge [of withAlice "''1''" alice
      "emailPatch\<lparr>Customer.ID := ''1'', Addresses := [home]\<rparr>"]
  by (auto simp: withAlice_def alice_def emailPatch_def PatchCustomer_def)

section \<open>Business errors on the wire\<close>

text \<open>
  Claim C1 says that whenever a service operation returns a business error, the response
  encoder writes the mapped status and the body \<^verbatim>\<open>{"error": message}\<close>, for Replace
  returning \<^verbatim>\<open>ErrInconsistentIDs\<close> in particular. The \<^verbatim>\<open>error()\<close> method of
  \<^verbatim>\<open>putCustomerResponse\<close> returns \<^verbatim>\<open>nil\<close> where the eight other response types
  return their \<^verbatim>\<open>Err\<close> field, so the encoder never sees the error of a Replace: a
  PUT to \<open>/customers/1\<close> with a payload identified \<open>''2''\<close> gets
  \<^verbatim>\<open>ErrInconsistentIDs\<close> from the service and is answered with status 200 and the
  encoded response value instead of status 400 and the error body.
\<close>

theorem PutCustomer_error_not_encoded:
  "MakePutCustomerEndpoint NewInmemService (putCustomerRequest ''1'' mismatched) =
     Some (putCustomerResponse (Some ErrInconsistentIDs), NewInmemService) \<and>
   map_option (\<lambda>(w, s). (statusCode w, Body w))
       (serveHTTP NewInmemService (putCustomerRequest ''1'' mismatched)) =
     Some (200, Some (ResponseJSON (putCustomerResponse (Some ErrInconsistentIDs)))) \<and>
   codeFrom ErrInconsistentIDs = 400"
  by (simp add: serveHTTP_def encodeResponse_def newResponseWriter_def statusCode_def
      PutCustomer_def mismatched_def alice_def)

lemma encodeResponse_error:
  assumes "error resp = Some e"
  shows "encodeResponse w resp =
    Some (w\<lparr>Header := (Header w)(''Content-Type'' \<mapsto> ''application/json; charset=utf-8''),
            WriteHeader := Some (codeFrom e), Body := Some (ErrorJSON (Error e))\<rparr>)"
  using assms by (simp add: encodeResponse_def encodeError_def)

lemma endpointFor_result:
  "\<exists>resp. endpointFor req s req = Some (resp, call s req) \<and>
     (\<not> isPut req \<longrightarrow> error resp = serviceError s req)"
  by (cases req) (auto split: prod.splits)

text \<open>
  On the eight other routes the encoder does what the claim says: when the service
  operation of a request returns an error, the handler answers with the status mapped
  from it (404 for \<^verbatim>\<open>ErrNotFound\<close>, 400 for \<^verbatim>\<open>ErrAlreadyExists\<close> and
  \<^verbatim>\<open>ErrInconsistentIDs\<close>, 500 for anything else) and with the error body carrying its
  message, and the store is the one the operation left.
\<close>

theorem serveHTTP_business_error:
  assumes "serviceError s req = Some e" and "\<not> isPut req"
  shows "\<exists>w. serveHTTP s req = Some (w, call s req) \<and>
           statusCode w = codeFrom e \<and> Body w = Some (ErrorJSON (Error e)) \<and>
           codeFrom e = (if e = ErrNotFound then 404
                         else if e = ErrAlreadyExists \<or> e = ErrInconsistentIDs then 400
                         else 500)"
proof -
  from endpointFor_result [of req s] assms obtain resp
    where r: "endpointFor req s req = Some (resp, call s req)" and e: "error resp = Some e"
    by auto
  have "codeFrom e = (if e = ErrNotFound then 404
                      else if e = ErrAlreadyExists \<or> e = ErrInconsistentIDs then 400 else 500)"
    by (cases e) simp_all
  with r encodeResponse_error [OF e, of newResponseWriter] show ?thesis
    by (simp add: serveHTTP_def statusCode_def)
qed

theorem serveHTTP_business_error_witness:
  "serviceError NewInmemService (getCustomerRequest ''missing'') = Some ErrNotFound \<and>
   \<not> isPut (getCustomerRequest ''missing'') \<and>
   map_option (\<lambda>(w, s). (statusCode w, Body w))
       (serveHTTP NewInmemService (getCustomerRequest ''missing'')) =
     Some (404, Some (ErrorJSON ''not found''))"
  using serveHTTP_business_error [of NewInmemService "getCustomerRequest ''missing''" ErrNotFound]
  by (auto simp: GetCustomer_def NewInmemService_def)


end
